theory Spec2Isabelle
  imports Complex_Main "HOL-Library.Sublist"
begin

section \<open>The notebook \<^verbatim>\<open>qiskit/aqua/chemistry/advanced_howto.ipynb\<close>\<close>

text \<open>
  The notebook is a Python script in seven code cells that computes the ground-state
  energy of LiH through the Qiskit Aqua chemistry library. The library is not part of
  the repository: it is a parameter of the model (the record \<open>library\<close>), so every
  theorem holds for whatever the library computes. What the notebook itself does
  (its index arithmetic, its bookkeeping, its conditionals, the order of its calls,
  what it prints) is translated cell by cell.

  Modelling decisions:
  \<^item> Python \<open>int\<close> is \<open>int\<close>; \<open>%\<close> on \<open>int\<close> is floored as HOL's \<open>mod\<close> is, and raises
    \<open>ZeroDivisionError\<close> on a zero divisor, which the model writes out.
  \<^item> Python \<open>float\<close> is \<open>real\<close> and numpy's complex is \<open>complex\<close>; rounding is not
    modelled, and no claim below rests on a law of real arithmetic that floats lack.
  \<^item> Library objects are values of an opaque type \<open>'o\<close>; a method that changes its
    receiver returns the changed receiver, which the model binds to the same variable.
  \<^item> A library call either returns or raises a library exception of the opaque type
    \<open>'e\<close>. The model records every call, with the values passed and whether it returned,
    and every \<open>print\<close>, in a trace.
\<close>

subsection \<open>Exceptions, argument values and traces\<close>

datatype 'e exn = LibraryError 'e | ZeroDivisionError | KeyError string | IndexError

datatype cfg = CStr string | CInt int

type_synonym driver_section = "(string \<times> (string \<times> cfg) list) list"

datatype 'o arg =
    AObj 'o
  | AInt int
  | AFloat real
  | ABool bool
  | AStr string
  | AIntList "int list"
  | AFloatList "real list"
  | ASection driver_section

text \<open>
  How a call reaches the library: \<open>Construct\<close> is a class called directly
  (\<open>FermionicOperator(h1=h1, h2=h2)\<close>), \<open>Factory\<close> a lookup of an instance by a string
  name (\<open>get_algorithm_instance('VQE')\<close>), \<open>Method\<close> a method of an object the notebook
  already holds.
\<close>

datatype kind = Construct | Factory | Method

datatype 'e outcome = Returned | Raised 'e

datatype ('o, 'e) event =
    Call kind string "'o arg list" "'e outcome"
  | Print string "'o arg list"

type_synonym ('o, 'e, 'a) prog = "('o, 'e) event list \<times> ('e exn + 'a)"

definition call :: "kind \<Rightarrow> string \<Rightarrow> 'o arg list \<Rightarrow> 'e + 'a \<Rightarrow> ('o, 'e, 'a) prog" where
  "call k f args r =
     (case r of
        Inl e \<Rightarrow> ([Call k f args (Raised e)], Inl (LibraryError e))
      | Inr x \<Rightarrow> ([Call k f args Returned], Inr x))"

definition print :: "string \<Rightarrow> 'o arg list \<Rightarrow> ('o, 'e, unit) prog" where
  "print fmt args = ([Print fmt args], Inr ())"

definition lift :: "'e exn + 'a \<Rightarrow> ('o, 'e, 'a) prog" where
  "lift r = ([], r)"

text \<open>Statement after statement: an exception ends the run, nothing catches it.\<close>

definition bnd :: "('o, 'e, 'a) prog \<Rightarrow> ('a \<Rightarrow> ('o, 'e, 'b) prog) \<Rightarrow> ('o, 'e, 'b) prog" where
  "bnd p f =
     (case snd p of
        Inl e \<Rightarrow> (fst p, Inl e)
      | Inr x \<Rightarrow> (fst p @ fst (f x), snd (f x)))"

subsection \<open>Python primitives the notebook uses\<close>

text \<open>\<^verbatim>\<open>[x % n for x in xs]\<close>: no division happens when \<open>xs\<close> is empty.\<close>

fun mod_all :: "int list \<Rightarrow> int \<Rightarrow> 'e exn + int list" where
  "mod_all [] n = Inr []"
| "mod_all (x # xs) n =
     (if n = 0 then Inl ZeroDivisionError
      else case mod_all xs n of Inl e \<Rightarrow> Inl e | Inr ys \<Rightarrow> Inr (x mod n # ys))"

text \<open>\<^verbatim>\<open>d[key]\<close> on a dictionary and \<^verbatim>\<open>xs[0]\<close> on a sequence.\<close>

definition subscript :: "(string \<rightharpoonup> 'a) \<Rightarrow> string \<Rightarrow> 'e exn + 'a" where
  "subscript d key = (case d key of None \<Rightarrow> Inl (KeyError key) | Some v \<Rightarrow> Inr v)"

definition item0 :: "'a list \<Rightarrow> 'e exn + 'a" where
  "item0 xs = (case xs of [] \<Rightarrow> Inl IndexError | x # _ \<Rightarrow> Inr x)"

subsection \<open>Index conversion (cell 3, the lines under "prepare full idx")\<close>

text \<open>
  \<^verbatim>\<open>
  remove_list = [x % molecule._num_orbitals for x in remove_list]
  freeze_list = [x % molecule._num_orbitals for x in freeze_list]
  remove_list = [x - len(freeze_list) for x in remove_list]
  remove_list += [x + molecule._num_orbitals - len(freeze_list)  for x in remove_list]
  freeze_list += [x + molecule._num_orbitals for x in freeze_list]
  \<close>
  The result is the pair \<open>(freeze_list, remove_list)\<close>.
\<close>

definition index_conversion :: "int \<Rightarrow> int list \<Rightarrow> int list \<Rightarrow> 'e exn + int list \<times> int list" where
  "index_conversion n freeze_list remove_list =
     (case mod_all remove_list n of
        Inl e \<Rightarrow> Inl e
      | Inr remove_list1 \<Rightarrow>
          (case mod_all freeze_list n of
             Inl e \<Rightarrow> Inl e
           | Inr freeze_list1 \<Rightarrow>
               (let remove_list2 = map (\<lambda>x. x - int (length freeze_list1)) remove_list1;
                    remove_list3 =
                      remove_list2 @ map (\<lambda>x. x + n - int (length freeze_list1)) remove_list2;
                    freeze_list2 = freeze_list1 @ map (\<lambda>x. x + n) freeze_list1
                in Inr (freeze_list2, remove_list3))))"

subsection \<open>The molecule and the library\<close>

text \<open>
  The attributes the notebook reads from the molecule that \<^verbatim>\<open>driver.run(section)\<close>
  returns (\<^verbatim>\<open>molecule._num_orbitals\<close> and so on).
\<close>

record 'o molecule =
  mol_one_body_integrals :: 'o
  mol_two_body_integrals :: 'o
  mol_nuclear_repulsion_energy :: real
  mol_hf_energy :: real
  mol_num_alpha :: int
  mol_num_beta :: int
  mol_num_orbitals :: int

text \<open>
  The entry points of the library that the notebook calls, in the order of their first
  use. Four classes have a method \<^verbatim>\<open>init_args\<close> and two a method \<^verbatim>\<open>run\<close>; each is a
  field of its own. \<open>num_qubits\<close> is the attribute \<^verbatim>\<open>qubitOp.num_qubits\<close>.
\<close>

record ('o, 'e) library =
  ConfigurationManager :: "'e + 'o"
  get_driver_instance :: "'o \<Rightarrow> string \<Rightarrow> 'e + 'o"
  driver_run :: "'o \<Rightarrow> driver_section \<Rightarrow> 'e + 'o molecule"
  FermionicOperator :: "'o \<Rightarrow> 'o \<Rightarrow> 'e + 'o"
  fermion_mode_freezing :: "'o \<Rightarrow> int list \<Rightarrow> 'e + 'o \<times> real"
  fermion_mode_elimination :: "'o \<Rightarrow> int list \<Rightarrow> 'e + 'o"
  mapping :: "'o \<Rightarrow> string \<Rightarrow> real \<Rightarrow> 'e + 'o"
  two_qubit_reduced_operator :: "'o \<Rightarrow> int \<Rightarrow> 'e + 'o"
  chop :: "'o \<Rightarrow> real \<Rightarrow> 'e + 'o"
  num_qubits :: "'o \<Rightarrow> int"
  get_algorithm_instance :: "string \<Rightarrow> 'e + 'o"
  exact_init_args :: "'o \<Rightarrow> 'o \<Rightarrow> int \<Rightarrow> 'e + 'o"
  exact_run :: "'o \<Rightarrow> 'e + (string \<rightharpoonup> complex list)"
  load_accounts :: "'e + unit"
  get_optimizer_instance :: "string \<Rightarrow> 'e + 'o"
  set_options :: "'o \<Rightarrow> int \<Rightarrow> 'e + 'o"
  get_initial_state_instance :: "string \<Rightarrow> 'e + 'o"
  hf_init_args :: "'o \<Rightarrow> int \<Rightarrow> int \<Rightarrow> string \<Rightarrow> bool \<Rightarrow> int \<Rightarrow> 'e + 'o"
  get_variational_form_instance :: "string \<Rightarrow> 'e + 'o"
  uccsd_init_args ::
    "'o \<Rightarrow> int \<Rightarrow> int \<Rightarrow> int \<Rightarrow> int \<Rightarrow> int list \<Rightarrow> int list \<Rightarrow> 'o \<Rightarrow> string \<Rightarrow> bool \<Rightarrow> int \<Rightarrow> 'e + 'o"
  setup_quantum_backend :: "'o \<Rightarrow> string \<Rightarrow> 'e + 'o"
  vqe_init_args :: "'o \<Rightarrow> 'o \<Rightarrow> string \<Rightarrow> 'o \<Rightarrow> 'o \<Rightarrow> 'e + 'o"
  vqe_run :: "'o \<Rightarrow> 'e + (string \<rightharpoonup> real list)"

subsection \<open>Cell 2: the driver\<close>

definition pyscf_cfg :: "(string \<times> cfg) list" where
  "pyscf_cfg =
     [(''atom'', CStr ''Li .0 .0 .0; H .0 .0 1.6''),
      (''unit'', CStr ''Angstrom''),
      (''charge'', CInt 0),
      (''spin'', CInt 0),
      (''basis'', CStr ''sto3g'')]"

definition section_dict :: driver_section where
  "section_dict = [(''properties'', pyscf_cfg)]"

definition cell2 :: "('o, 'e) library \<Rightarrow> ('o, 'e, 'o molecule) prog" where
  "cell2 lib =
     bnd (call Construct ''ConfigurationManager'' [] (ConfigurationManager lib)) (\<lambda>cfg_mgr.
     bnd (call Factory ''cfg_mgr.get_driver_instance'' [AStr ''PYSCF'']
            (get_driver_instance lib cfg_mgr ''PYSCF'')) (\<lambda>driver.
     call Method ''driver.run'' [ASection section_dict] (driver_run lib driver section_dict)))"

subsection \<open>Cell 3: the qubit Hamiltonian\<close>

text \<open>The variables of the notebook that later cells and the claims read.\<close>

record 'o vars =
  freeze_list :: "int list"
  remove_list :: "int list"
  map_type :: string
  h1 :: 'o
  h2 :: 'o
  nuclear_repulsion_energy :: real
  num_particles :: int
  num_spin_orbitals :: int
  energy_shift :: real
  qubit_reduction :: bool
  ferOp :: 'o
  qubitOp :: 'o

text \<open>
  \<^verbatim>\<open>
  if len(freeze_list) > 0:
      ferOp, energy_shift = ferOp.fermion_mode_freezing(freeze_list)
      num_spin_orbitals -= len(freeze_list)
      num_particles -= len(freeze_list)
  \<close>
  on the variables \<open>(ferOp, energy_shift, num_spin_orbitals, num_particles)\<close>.
\<close>

definition freezing_step ::
  "('o, 'e) library \<Rightarrow> int list \<Rightarrow> 'o \<times> real \<times> int \<times> int \<Rightarrow> ('o, 'e, 'o \<times> real \<times> int \<times> int) prog" where
  "freezing_step lib freeze_list' st =
     (case st of (ferOp', energy_shift', num_spin_orbitals', num_particles') \<Rightarrow>
        if int (length freeze_list') > 0 then
          bnd (call Method ''ferOp.fermion_mode_freezing'' [AIntList freeze_list']
                 (fermion_mode_freezing lib ferOp' freeze_list')) (\<lambda>(ferOp'', energy_shift'').
          lift (Inr (ferOp'', energy_shift'',
                     num_spin_orbitals' - int (length freeze_list'),
                     num_particles' - int (length freeze_list'))))
        else lift (Inr st))"

text \<open>
  \<^verbatim>\<open>
  if len(remove_list) > 0:
      ferOp = ferOp.fermion_mode_elimination(remove_list)
      num_spin_orbitals -= len(remove_list)
  \<close>
  on the variables \<open>(ferOp, num_spin_orbitals)\<close>.
\<close>

definition elimination_step ::
  "('o, 'e) library \<Rightarrow> int list \<Rightarrow> 'o \<times> int \<Rightarrow> ('o, 'e, 'o \<times> int) prog" where
  "elimination_step lib remove_list' st =
     (case st of (ferOp', num_spin_orbitals') \<Rightarrow>
        if int (length remove_list') > 0 then
          bnd (call Method ''ferOp.fermion_mode_elimination'' [AIntList remove_list']
                 (fermion_mode_elimination lib ferOp' remove_list')) (\<lambda>ferOp''.
          lift (Inr (ferOp'', num_spin_orbitals' - int (length remove_list'))))
        else lift (Inr st))"

text \<open>
  \<^verbatim>\<open>qubitOp = qubitOp.two_qubit_reduced_operator(num_particles) if qubit_reduction else qubitOp\<close>
\<close>

definition reduction_step ::
  "('o, 'e) library \<Rightarrow> bool \<Rightarrow> int \<Rightarrow> 'o \<Rightarrow> ('o, 'e, 'o) prog" where
  "reduction_step lib qubit_reduction' num_particles' qubitOp' =
     (if qubit_reduction' then
        call Method ''qubitOp.two_qubit_reduced_operator'' [AInt num_particles']
          (two_qubit_reduced_operator lib qubitOp' num_particles')
      else lift (Inr qubitOp'))"

text \<open>
  The cell after its first three lines, which set \<open>freeze_list\<close>, \<open>remove_list\<close> and
  \<open>map_type\<close>: these are the arguments \<open>freeze_list0\<close>, \<open>remove_list0\<close> and
  \<open>map_type'\<close>. \<^verbatim>\<open>10**-10\<close> is the float \<open>1 / 10 ^ 10\<close>. \<^verbatim>\<open>qubitOp.chop\<close>
  changes \<open>qubitOp\<close> in place: the model binds the changed operator to \<open>qubitOp\<close>.
\<close>

definition cell3_body ::
  "('o, 'e) library \<Rightarrow> int list \<Rightarrow> int list \<Rightarrow> string \<Rightarrow> 'o molecule \<Rightarrow> ('o, 'e, 'o vars) prog" where
  "cell3_body lib freeze_list0 remove_list0 map_type' molecule =
     (let h1' = mol_one_body_integrals molecule;
          h2' = mol_two_body_integrals molecule;
          nuclear_repulsion_energy' = mol_nuclear_repulsion_energy molecule;
          num_particles0 = mol_num_alpha molecule + mol_num_beta molecule;
          num_spin_orbitals0 = mol_num_orbitals molecule * 2
      in
      bnd (print ''HF energy: {}''
             [AFloat (mol_hf_energy molecule - mol_nuclear_repulsion_energy molecule)]) (\<lambda>_.
      bnd (print ''# of electrons: {}'' [AInt num_particles0]) (\<lambda>_.
      bnd (print ''# of spin orbitals: {}'' [AInt num_spin_orbitals0]) (\<lambda>_.
      bnd (lift (index_conversion (mol_num_orbitals molecule) freeze_list0 remove_list0))
        (\<lambda>(freeze_list', remove_list').
      let energy_shift0 = 0;
          qubit_reduction' = (if map_type' = ''parity'' then True else False)
      in
      bnd (call Construct ''FermionicOperator'' [AObj h1', AObj h2']
             (FermionicOperator lib h1' h2')) (\<lambda>ferOp0.
      bnd (freezing_step lib freeze_list' (ferOp0, energy_shift0, num_spin_orbitals0, num_particles0))
        (\<lambda>(ferOp1, energy_shift', num_spin_orbitals1, num_particles').
      bnd (elimination_step lib remove_list' (ferOp1, num_spin_orbitals1))
        (\<lambda>(ferOp', num_spin_orbitals').
      bnd (call Method ''ferOp.mapping'' [AStr map_type', AFloat 0.00000001]
             (mapping lib ferOp' map_type' 0.00000001)) (\<lambda>qubitOp0.
      bnd (reduction_step lib qubit_reduction' num_particles' qubitOp0) (\<lambda>qubitOp1.
      bnd (call Method ''qubitOp.chop'' [AFloat (1 / 10 ^ 10)]
             (chop lib qubitOp1 (1 / 10 ^ 10))) (\<lambda>qubitOp'.
      lift (Inr \<lparr>freeze_list = freeze_list', remove_list = remove_list',
                 map_type = map_type', h1 = h1', h2 = h2',
                 nuclear_repulsion_energy = nuclear_repulsion_energy',
                 num_particles = num_particles', num_spin_orbitals = num_spin_orbitals',
                 energy_shift = energy_shift', qubit_reduction = qubit_reduction',
                 ferOp = ferOp', qubitOp = qubitOp'\<rparr>))))))))))))"

text \<open>
  \<^verbatim>\<open>
  freeze_list = [0]
  remove_list = [-3, -2] # negative number denotes the reverse order
  map_type = 'parity'
  \<close>
\<close>

definition cell3 :: "('o, 'e) library \<Rightarrow> 'o molecule \<Rightarrow> ('o, 'e, 'o vars) prog" where
  "cell3 lib molecule = cell3_body lib [0] [-3, -2] ''parity'' molecule"

subsection \<open>Cell 4: the exact eigensolver\<close>

definition cell4 :: "('o, 'e) library \<Rightarrow> 'o vars \<Rightarrow> ('o, 'e, string \<rightharpoonup> complex list) prog" where
  "cell4 lib v =
     bnd (call Factory ''get_algorithm_instance'' [AStr ''ExactEigensolver'']
            (get_algorithm_instance lib ''ExactEigensolver'')) (\<lambda>exact_eigensolver0.
     bnd (call Method ''exact_eigensolver.init_args'' [AObj (qubitOp v), AInt 1]
            (exact_init_args lib exact_eigensolver0 (qubitOp v) 1)) (\<lambda>exact_eigensolver.
     bnd (call Method ''exact_eigensolver.run'' [] (exact_run lib exact_eigensolver)) (\<lambda>ret.
     bnd (lift (subscript ret ''eigvals'')) (\<lambda>eigvals.
     bnd (lift (item0 eigvals)) (\<lambda>e0.
     bnd (print ''The computed energy is: {:.12f}'' [AFloat (Re e0)]) (\<lambda>_.
     bnd (lift (subscript ret ''eigvals'')) (\<lambda>eigvals'.
     bnd (lift (item0 eigvals')) (\<lambda>e0'.
     bnd (print ''The total ground state energy is: {:.12f}''
            [AFloat (Re e0' + energy_shift v + nuclear_repulsion_energy v)]) (\<lambda>_.
     lift (Inr ret))))))))))"

subsection \<open>Cell 5: the account\<close>

definition cell5 :: "('o, 'e) library \<Rightarrow> ('o, 'e, unit) prog" where
  "cell5 lib = call Method ''IBMQ.load_accounts'' [] (load_accounts lib)"

subsection \<open>Cell 6: optimizer, initial state, variational form, VQE\<close>

definition cell6 :: "('o, 'e) library \<Rightarrow> 'o vars \<Rightarrow> ('o, 'e, 'o) prog" where
  "cell6 lib v =
     (let max_eval = 200 in
      bnd (call Factory ''get_optimizer_instance'' [AStr ''COBYLA'']
             (get_optimizer_instance lib ''COBYLA'')) (\<lambda>cobyla0.
      bnd (call Method ''cobyla.set_options'' [AInt max_eval]
             (set_options lib cobyla0 max_eval)) (\<lambda>cobyla.
      bnd (call Factory ''get_initial_state_instance'' [AStr ''HartreeFock'']
             (get_initial_state_instance lib ''HartreeFock'')) (\<lambda>HF_state0.
      bnd (call Method ''HF_state.init_args''
             [AInt (num_qubits lib (qubitOp v)), AInt (num_spin_orbitals v), AStr (map_type v),
              ABool (qubit_reduction v), AInt (num_particles v)]
             (hf_init_args lib HF_state0 (num_qubits lib (qubitOp v)) (num_spin_orbitals v)
                (map_type v) (qubit_reduction v) (num_particles v))) (\<lambda>HF_state.
      bnd (call Factory ''get_variational_form_instance'' [AStr ''UCCSD'']
             (get_variational_form_instance lib ''UCCSD'')) (\<lambda>var_form0.
      bnd (call Method ''var_form.init_args''
             [AInt (num_qubits lib (qubitOp v)), AInt 1, AInt (num_spin_orbitals v),
              AInt (num_particles v), AIntList [0], AIntList [0, 1], AObj HF_state,
              AStr (map_type v), ABool (qubit_reduction v), AInt 1]
             (uccsd_init_args lib var_form0 (num_qubits lib (qubitOp v)) 1
                (num_spin_orbitals v) (num_particles v) [0] [0, 1] HF_state (map_type v)
                (qubit_reduction v) 1)) (\<lambda>var_form.
      bnd (call Factory ''get_algorithm_instance'' [AStr ''VQE'']
             (get_algorithm_instance lib ''VQE'')) (\<lambda>vqe_algorithm0.
      bnd (call Method ''vqe_algorithm.setup_quantum_backend'' [AStr ''statevector_simulator'']
             (setup_quantum_backend lib vqe_algorithm0 ''statevector_simulator''))
        (\<lambda>vqe_algorithm1.
      call Method ''vqe_algorithm.init_args''
        [AObj (qubitOp v), AStr ''matrix'', AObj var_form, AObj cobyla]
        (vqe_init_args lib vqe_algorithm1 (qubitOp v) ''matrix'' var_form cobyla))))))))))"

subsection \<open>Cell 7: VQE\<close>

definition cell7 :: "('o, 'e) library \<Rightarrow> 'o vars \<Rightarrow> 'o \<Rightarrow> ('o, 'e, string \<rightharpoonup> real list) prog" where
  "cell7 lib v vqe_algorithm =
     bnd (call Method ''vqe_algorithm.run'' [] (vqe_run lib vqe_algorithm)) (\<lambda>results.
     bnd (lift (subscript results ''eigvals'')) (\<lambda>eigvals.
     bnd (lift (item0 eigvals)) (\<lambda>e0.
     bnd (print ''The computed ground state energy is: {:.12f}'' [AFloat e0]) (\<lambda>_.
     bnd (lift (subscript results ''eigvals'')) (\<lambda>eigvals'.
     bnd (lift (item0 eigvals')) (\<lambda>e0'.
     bnd (print ''The total ground state energy is: {:.12f}''
            [AFloat (e0' + energy_shift v + nuclear_repulsion_energy v)]) (\<lambda>_.
     bnd (lift (subscript results ''opt_params'')) (\<lambda>opt_params.
     bnd (print ''Parameters: {}'' [AFloatList opt_params]) (\<lambda>_.
     lift (Inr results))))))))))"

subsection \<open>The notebook: its code cells, top to bottom\<close>

text \<open>
  Cell 1 only imports names. The result of a run that raises nothing is the variables
  of cell 3 with the two result dictionaries \<open>ret\<close> and \<open>results\<close>.
\<close>

record 'o final =
  variables :: "'o vars"
  ret :: "string \<rightharpoonup> complex list"
  results :: "string \<rightharpoonup> real list"

definition notebook :: "('o, 'e) library \<Rightarrow> ('o, 'e, 'o final) prog" where
  "notebook lib =
     bnd (cell2 lib) (\<lambda>molecule.
     bnd (cell3 lib molecule) (\<lambda>v.
     bnd (cell4 lib v) (\<lambda>ret'.
     bnd (cell5 lib) (\<lambda>_.
     bnd (cell6 lib v) (\<lambda>vqe_algorithm.
     bnd (cell7 lib v vqe_algorithm) (\<lambda>results'.
     lift (Inr \<lparr>variables = v, ret = ret', results = results'\<rparr>)))))))"

subsection \<open>The notebook without its conditionals\<close>

text \<open>
  The straight-line program the specification describes: cell 3 with the body of each
  \<^verbatim>\<open>if\<close> run unconditionally and the conditional expression replaced by its first
  branch, and the notebook with this cell in place of cell 3.
\<close>

definition cell3_linear :: "('o, 'e) library \<Rightarrow> 'o molecule \<Rightarrow> ('o, 'e, 'o vars) prog" where
  "cell3_linear lib molecule =
     (let h1' = mol_one_body_integrals molecule;
          h2' = mol_two_body_integrals molecule;
          nuclear_repulsion_energy' = mol_nuclear_repulsion_energy molecule;
          num_particles0 = mol_num_alpha molecule + mol_num_beta molecule;
          num_spin_orbitals0 = mol_num_orbitals molecule * 2
      in
      bnd (print ''HF energy: {}''
             [AFloat (mol_hf_energy molecule - mol_nuclear_repulsion_energy molecule)]) (\<lambda>_.
      bnd (print ''# of electrons: {}'' [AInt num_particles0]) (\<lambda>_.
      bnd (print ''# of spin orbitals: {}'' [AInt num_spin_orbitals0]) (\<lambda>_.
      bnd (lift (index_conversion (mol_num_orbitals molecule) [0] [-3, -2]))
        (\<lambda>(freeze_list', remove_list').
      bnd (call Construct ''FermionicOperator'' [AObj h1', AObj h2']
             (FermionicOperator lib h1' h2')) (\<lambda>ferOp0.
      bnd (call Method ''ferOp.fermion_mode_freezing'' [AIntList freeze_list']
             (fermion_mode_freezing lib ferOp0 freeze_list')) (\<lambda>(ferOp1, energy_shift').
      bnd (call Method ''ferOp.fermion_mode_elimination'' [AIntList remove_list']
             (fermion_mode_elimination lib ferOp1 remove_list')) (\<lambda>ferOp'.
      bnd (call Method ''ferOp.mapping'' [AStr ''parity'', AFloat 0.00000001]
             (mapping lib ferOp' ''parity'' 0.00000001)) (\<lambda>qubitOp0.
      bnd (call Method ''qubitOp.two_qubit_reduced_operator''
             [AInt (num_particles0 - int (length freeze_list'))]
             (two_qubit_reduced_operator lib qubitOp0
                (num_particles0 - int (length freeze_list')))) (\<lambda>qubitOp1.
      bnd (call Method ''qubitOp.chop'' [AFloat (1 / 10 ^ 10)]
             (chop lib qubitOp1 (1 / 10 ^ 10))) (\<lambda>qubitOp'.
      lift (Inr \<lparr>freeze_list = freeze_list', remove_list = remove_list',
                 map_type = ''parity'', h1 = h1', h2 = h2',
                 nuclear_repulsion_energy = nuclear_repulsion_energy',
                 num_particles = num_particles0 - int (length freeze_list'),
                 num_spin_orbitals =
                   num_spin_orbitals0 - int (length freeze_list') - int (length remove_list'),
                 energy_shift = energy_shift', qubit_reduction = True,
                 ferOp = ferOp', qubitOp = qubitOp'\<rparr>))))))))))))"

definition notebook_linear :: "('o, 'e) library \<Rightarrow> ('o, 'e, 'o final) prog" where
  "notebook_linear lib =
     bnd (cell2 lib) (\<lambda>molecule.
     bnd (cell3_linear lib molecule) (\<lambda>v.
     bnd (cell4 lib v) (\<lambda>ret'.
     bnd (cell5 lib) (\<lambda>_.
     bnd (cell6 lib v) (\<lambda>vqe_algorithm.
     bnd (cell7 lib v vqe_algorithm) (\<lambda>results'.
     lift (Inr \<lparr>variables = v, ret = ret', results = results'\<rparr>)))))))"

subsection \<open>What a trace shows\<close>

text \<open>The callees of the library calls of a trace, in the order of the calls.\<close>

fun callee :: "('o, 'e) event \<Rightarrow> string list" where
  "callee (Call k f args out) = [f]"
| "callee (Print fmt args) = []"

definition callees :: "('o, 'e) event list \<Rightarrow> string list" where
  "callees t = concat (map callee t)"

text \<open>The calls of the notebook in the order of its text.\<close>

definition program_order :: "string list" where
  "program_order =
     [''ConfigurationManager'', ''cfg_mgr.get_driver_instance'', ''driver.run'',
      ''FermionicOperator'', ''ferOp.fermion_mode_freezing'',
      ''ferOp.fermion_mode_elimination'', ''ferOp.mapping'',
      ''qubitOp.two_qubit_reduced_operator'', ''qubitOp.chop'',
      ''get_algorithm_instance'', ''exact_eigensolver.init_args'', ''exact_eigensolver.run'',
      ''IBMQ.load_accounts'',
      ''get_optimizer_instance'', ''cobyla.set_options'',
      ''get_initial_state_instance'', ''HF_state.init_args'',
      ''get_variational_form_instance'', ''var_form.init_args'',
      ''get_algorithm_instance'', ''vqe_algorithm.setup_quantum_backend'',
      ''vqe_algorithm.init_args'', ''vqe_algorithm.run'']"

text \<open>
  \<open>precedes a b cs\<close>: no call of \<open>b\<close> stands before the first call of \<open>a\<close>, so every
  call of \<open>b\<close> has a call of \<open>a\<close> before it.
\<close>

definition precedes :: "string \<Rightarrow> string \<Rightarrow> string list \<Rightarrow> bool" where
  "precedes a b cs = (b \<notin> set (takeWhile (\<lambda>c. c \<noteq> a) cs))"

text \<open>
  A run that makes its calls in a given order: all of them when it raises nothing, and
  the first ones, up to the statement that raised, otherwise.
\<close>

definition in_order :: "string list \<Rightarrow> ('o, 'e, 'a) prog \<Rightarrow> bool" where
  "in_order order p =
     (case snd p of
        Inl e \<Rightarrow> prefix (callees (fst p)) order
      | Inr x \<Rightarrow> callees (fst p) = order)"

text \<open>The calls of a trace with the values passed, and the calls of one kind.\<close>

fun passed :: "('o, 'e) event \<Rightarrow> (string \<times> 'o arg list) list" where
  "passed (Call k f args out) = [(f, args)]"
| "passed (Print fmt args) = []"

definition calls :: "('o, 'e) event list \<Rightarrow> (string \<times> 'o arg list) list" where
  "calls t = concat (map passed t)"

fun passed_of :: "kind \<Rightarrow> ('o, 'e) event \<Rightarrow> (string \<times> 'o arg list) list" where
  "passed_of k' (Call k f args out) = (if k = k' then [(f, args)] else [])"
| "passed_of k' (Print fmt args) = []"

definition calls_of :: "kind \<Rightarrow> ('o, 'e) event list \<Rightarrow> (string \<times> 'o arg list) list" where
  "calls_of k t = concat (map (passed_of k) t)"

text \<open>What was printed under a format string.\<close>

fun printed_by :: "string \<Rightarrow> ('o, 'e) event \<Rightarrow> 'o arg list list" where
  "printed_by fmt' (Print fmt args) = (if fmt = fmt' then [args] else [])"
| "printed_by fmt' (Call k f args out) = []"

definition printed :: "string \<Rightarrow> ('o, 'e) event list \<Rightarrow> 'o arg list list" where
  "printed fmt t = concat (map (printed_by fmt) t)"

text \<open>The exceptions that the calls of a trace raised, in the order of the calls.\<close>

fun raised :: "('o, 'e) event \<Rightarrow> 'e list" where
  "raised (Call k f args Returned) = []"
| "raised (Call k f args (Raised e)) = [e]"
| "raised (Print fmt args) = []"

definition raises :: "('o, 'e) event list \<Rightarrow> 'e list" where
  "raises t = concat (map raised t)"

text \<open>
  A run in which no exception of the library is handled: when the run ends in an
  exception of the library, one call raised, it raised that exception and it is the
  last event of the trace; when the run ends otherwise, no call raised.
\<close>

definition unhandled :: "('o, 'e, 'a) prog \<Rightarrow> bool" where
  "unhandled p =
     ((\<forall>e. snd p = Inl (LibraryError e) \<longrightarrow>
         raises (fst p) = [e] \<and> fst p \<noteq> [] \<and>
         (\<exists>k f args. last (fst p) = Call k f args (Raised e))) \<and>
      ((\<forall>e. snd p \<noteq> Inl (LibraryError e)) \<longrightarrow> raises (fst p) = []))"

text \<open>
  A run that ends at a given call of the library, which raised \<open>e\<close>: the result of the
  run is that exception, the call is the last event of the trace, and no other call
  raised.
\<close>

definition ends_raising :: "('o, 'e, 'a) prog \<Rightarrow> kind \<Rightarrow> string \<Rightarrow> 'o arg list \<Rightarrow> 'e \<Rightarrow> bool" where
  "ends_raising p k f args e =
     (snd p = Inl (LibraryError e) \<and>
      (\<exists>us. fst p = us @ [Call k f args (Raised e)]) \<and>
      raises (fst p) = [e])"

text \<open>The values of the attributes the notebook reads from a molecule.\<close>

definition attributes :: "'o molecule \<Rightarrow> 'o arg list" where
  "attributes molecule =
     [AObj (mol_one_body_integrals molecule), AObj (mol_two_body_integrals molecule),
      AFloat (mol_nuclear_repulsion_energy molecule), AFloat (mol_hf_energy molecule),
      AInt (mol_num_alpha molecule), AInt (mol_num_beta molecule),
      AInt (mol_num_orbitals molecule)]"

text \<open>
  Two molecules with the same number of orbitals, numbers of electrons, integrals and
  nuclear repulsion energy; their Hartree-Fock energies may differ.
\<close>

definition same_attributes :: "'o molecule \<Rightarrow> 'o molecule \<Rightarrow> bool" where
  "same_attributes m1 m2 =
     (mol_num_orbitals m1 = mol_num_orbitals m2 \<and>
      mol_num_alpha m1 = mol_num_alpha m2 \<and>
      mol_num_beta m1 = mol_num_beta m2 \<and>
      mol_one_body_integrals m1 = mol_one_body_integrals m2 \<and>
      mol_two_body_integrals m1 = mol_two_body_integrals m2 \<and>
      mol_nuclear_repulsion_energy m1 = mol_nuclear_repulsion_energy m2)"


subsection \<open>A library to run the notebook on\<close>

text \<open>
  A library whose objects are their names, and a molecule with the six orbitals and
  four electrons the notebook's output reports for LiH (the energies are round numbers,
  not those of LiH). \<open>demo_library_raising\<close> is the same library with a \<^verbatim>\<open>mapping\<close> that
  raises.
\<close>

definition demo_molecule :: "string molecule" where
  "demo_molecule =
     \<lparr>mol_one_body_integrals = ''h1'', mol_two_body_integrals = ''h2'',
      mol_nuclear_repulsion_energy = 1, mol_hf_energy = - 8,
      mol_num_alpha = 2, mol_num_beta = 2, mol_num_orbitals = 6\<rparr>"

definition demo_library :: "(string, string) library" where
  "demo_library =
     \<lparr>ConfigurationManager = Inr ''cfg_mgr'',
      get_driver_instance = (\<lambda>cfg_mgr name. Inr name),
      driver_run = (\<lambda>driver sect. Inr demo_molecule),
      FermionicOperator = (\<lambda>a b. Inr ''ferOp''),
      fermion_mode_freezing = (\<lambda>f xs. Inr (''ferOp frozen'', - 7)),
      fermion_mode_elimination = (\<lambda>f xs. Inr ''ferOp eliminated''),
      mapping = (\<lambda>f mt thr. Inr ''qubitOp''),
      two_qubit_reduced_operator = (\<lambda>q n. Inr ''qubitOp reduced''),
      chop = (\<lambda>q thr. Inr ''qubitOp chopped''),
      num_qubits = (\<lambda>q. 4),
      get_algorithm_instance = (\<lambda>name. Inr name),
      exact_init_args = (\<lambda>a q k. Inr a),
      exact_run = (\<lambda>a. Inr [''eigvals'' \<mapsto> [Complex (- 1) 0]]),
      load_accounts = Inr (),
      get_optimizer_instance = (\<lambda>name. Inr name),
      set_options = (\<lambda>opt maxiter. Inr opt),
      get_initial_state_instance = (\<lambda>name. Inr name),
      hf_init_args = (\<lambda>s nq nso mt red np. Inr s),
      get_variational_form_instance = (\<lambda>name. Inr name),
      uccsd_init_args = (\<lambda>vf nq depth nso np occ unocc init mt red slices. Inr vf),
      setup_quantum_backend = (\<lambda>a backend. Inr a),
      vqe_init_args = (\<lambda>a q mode vf opt. Inr a),
      vqe_run = (\<lambda>a. Inr [''eigvals'' \<mapsto> [- 1], ''opt_params'' \<mapsto> [0, 0]])\<rparr>"


section \<open>Lemmas about the model\<close>

subsection \<open>Index conversion\<close>

lemma mod_all_nonzero: "n \<noteq> 0 \<Longrightarrow> mod_all xs n = Inr (map (\<lambda>x. x mod n) xs)"
  by (induction xs) simp_all

lemma index_conversion_nonzero:
  "n \<noteq> 0 \<Longrightarrow>
   index_conversion n fl rl =
     Inr (map (\<lambda>x. x mod n) fl @ map (\<lambda>x. x mod n + n) fl,
          map (\<lambda>x. x mod n - int (length fl)) rl @
          map (\<lambda>x. x mod n - int (length fl) + n - int (length fl)) rl)"
  by (simp add: index_conversion_def mod_all_nonzero Let_def comp_def)

lemma neg_mod_shift: "0 < k \<Longrightarrow> k < n \<Longrightarrow> (- k) mod n = n - (k::int)"
proof -
  assume a: "0 < k" "k < n"
  have "(- k) mod n = (- k + n) mod n" by simp
  also have "\<dots> = - k + n" using a by (intro mod_pos_pos_trivial) auto
  finally show ?thesis by simp
qed

subsection \<open>Runs that raise nothing\<close>

lemma bnd_success:
  "bnd p f = (t, Inr y) \<longleftrightarrow> (\<exists>t1 x t2. p = (t1, Inr x) \<and> f x = (t2, Inr y) \<and> t = t1 @ t2)"
  by (cases p; cases "snd p") (auto simp: bnd_def prod_eq_iff split: sum.splits)

lemma call_success: "call k f a r = (t, Inr x) \<longleftrightarrow> r = Inr x \<and> t = [Call k f a Returned]"
  by (auto simp: call_def split: sum.splits)

lemma print_success: "print fmt a = (t, Inr u) \<longleftrightarrow> t = [Print fmt a]"
  by (auto simp: print_def)

lemma lift_success: "lift r = (t, Inr x) \<longleftrightarrow> r = Inr x \<and> t = []"
  by (auto simp: lift_def)

lemmas success = bnd_success call_success print_success lift_success



subsection \<open>Traces\<close>

lemma callees_append [simp]: "callees (s @ t) = callees s @ callees t"
  by (simp add: callees_def)

lemma callees_Nil [simp]: "callees [] = []"
  by (simp add: callees_def)

lemma callees_Cons [simp]: "callees (ev # t) = callee ev @ callees t"
  by (simp add: callees_def)

lemma calls_append [simp]: "calls (s @ t) = calls s @ calls t"
  by (simp add: calls_def)

lemma calls_Nil [simp]: "calls [] = []"
  by (simp add: calls_def)

lemma calls_Cons [simp]: "calls (ev # t) = passed ev @ calls t"
  by (simp add: calls_def)

lemma calls_of_append [simp]: "calls_of k (s @ t) = calls_of k s @ calls_of k t"
  by (simp add: calls_of_def)

lemma calls_of_Nil [simp]: "calls_of k [] = []"
  by (simp add: calls_of_def)

lemma calls_of_Cons [simp]: "calls_of k (ev # t) = passed_of k ev @ calls_of k t"
  by (simp add: calls_of_def)

lemma printed_append [simp]: "printed fmt (s @ t) = printed fmt s @ printed fmt t"
  by (simp add: printed_def)

lemma printed_Nil [simp]: "printed fmt [] = []"
  by (simp add: printed_def)

lemma printed_Cons [simp]: "printed fmt (ev # t) = printed_by fmt ev @ printed fmt t"
  by (simp add: printed_def)

subsection \<open>Cell 3 with the notebook's settings\<close>

lemma index_conversion_zero: "index_conversion 0 [0] [-3, -2] = Inl ZeroDivisionError"
  by (simp add: index_conversion_def)

lemma index_conversion_settings:
  "n \<noteq> 0 \<Longrightarrow>
   index_conversion n [0] [-3, -2] =
     Inr ([0, n], [(- 3) mod n - 1, (- 2) mod n - 1, (- 3) mod n - 1 + n - 1, (- 2) mod n - 1 + n - 1])"
  by (simp add: index_conversion_nonzero)

lemma bnd_lift_Inl: "bnd (lift (Inl e)) f = ([], Inl e)"
  by (simp add: bnd_def lift_def)

lemma bnd_lift_Inr: "bnd (lift (Inr x)) f = f x"
  by (simp add: bnd_def lift_def)

lemma bnd_assoc: "bnd (bnd p f) g = bnd p (\<lambda>x. bnd (f x) g)"
  by (cases p; cases "snd p") (auto simp: bnd_def split: sum.splits)

lemma cell3_linear_eq: "cell3 lib molecule = cell3_linear lib molecule"
proof (cases "mol_num_orbitals molecule = 0")
  case True
  then show ?thesis
    by (simp add: cell3_def cell3_body_def cell3_linear_def Let_def index_conversion_zero bnd_lift_Inl)
next
  case False
  then show ?thesis
    by (simp add: cell3_def cell3_body_def cell3_linear_def Let_def index_conversion_settings
        bnd_lift_Inr freezing_step_def elimination_step_def reduction_step_def bnd_assoc
        case_prod_unfold)
qed

subsection \<open>Exceptions of the library are not handled\<close>

lemma raises_append [simp]: "raises (s @ t) = raises s @ raises t"
  by (simp add: raises_def)

lemma raises_Nil [simp]: "raises [] = []"
  by (simp add: raises_def)

lemma raises_Cons [simp]: "raises (ev # t) = raised ev @ raises t"
  by (simp add: raises_def)



















subsection \<open>The order of the calls\<close>

lemma in_order_call: "in_order [f] (call k f args r)"
  by (cases r) (simp_all add: in_order_def call_def)

lemma in_order_print: "in_order [] (print fmt args)"
  by (simp add: in_order_def print_def)

lemma in_order_lift: "in_order [] (lift r)"
  by (cases r) (simp_all add: in_order_def lift_def)

lemma in_order_bnd:
  assumes p: "in_order A p" and f: "\<And>x. in_order B (f x)" and order: "order = A @ B"
  shows "in_order order (bnd p f)"
proof (cases "snd p")
  case (Inl e)
  then have "fst (bnd p f) = fst p" and "snd (bnd p f) = Inl e"
    by (simp_all add: bnd_def)
  then show ?thesis using p Inl order by (simp add: in_order_def)
next
  case (Inr x)
  then have b: "fst (bnd p f) = fst p @ fst (f x)" "snd (bnd p f) = snd (f x)"
    by (simp_all add: bnd_def)
  have "callees (fst p) = A" using p Inr by (simp add: in_order_def)
  then show ?thesis
    using f [of x] order by (cases "snd (f x)") (simp_all add: in_order_def b)
qed

lemma in_order_case_prod:
  "(\<And>a b. in_order order (f a b)) \<Longrightarrow> in_order order (case x of (a, b) \<Rightarrow> f a b)"
  by (cases x) simp

lemmas in_order_intros =
  in_order_bnd in_order_call in_order_print in_order_lift in_order_case_prod

lemma in_order_cell2:
  "in_order [''ConfigurationManager'', ''cfg_mgr.get_driver_instance'', ''driver.run'']
     (cell2 lib)"
  unfolding cell2_def by (rule in_order_intros | simp)+

lemma in_order_cell3:
  "in_order [''FermionicOperator'', ''ferOp.fermion_mode_freezing'',
      ''ferOp.fermion_mode_elimination'', ''ferOp.mapping'',
      ''qubitOp.two_qubit_reduced_operator'', ''qubitOp.chop''] (cell3 lib m)"
  unfolding cell3_linear_eq cell3_linear_def Let_def by (rule in_order_intros | simp)+

lemma in_order_cell4:
  "in_order [''get_algorithm_instance'', ''exact_eigensolver.init_args'',
      ''exact_eigensolver.run''] (cell4 lib v)"
  unfolding cell4_def by (rule in_order_intros | simp)+

lemma in_order_cell5: "in_order [''IBMQ.load_accounts''] (cell5 lib)"
  unfolding cell5_def by (rule in_order_intros)

lemma in_order_cell6:
  "in_order [''get_optimizer_instance'', ''cobyla.set_options'',
      ''get_initial_state_instance'', ''HF_state.init_args'',
      ''get_variational_form_instance'', ''var_form.init_args'',
      ''get_algorithm_instance'', ''vqe_algorithm.setup_quantum_backend'',
      ''vqe_algorithm.init_args''] (cell6 lib v)"
  unfolding cell6_def Let_def by (rule in_order_intros | simp)+

lemma in_order_cell7: "in_order [''vqe_algorithm.run''] (cell7 lib v a)"
  unfolding cell7_def by (rule in_order_intros | simp)+

lemma in_order_notebook: "in_order program_order (notebook lib)"
  unfolding notebook_def
  by (rule in_order_bnd in_order_cell2 in_order_cell3 in_order_cell4 in_order_cell5
      in_order_cell6 in_order_cell7 in_order_lift | simp add: program_order_def)+

lemma in_order_prefix: "in_order order p \<Longrightarrow> prefix (callees (fst p)) order"
  by (cases "snd p") (simp_all add: in_order_def)

lemma precedes_prefix:
  assumes "prefix cs order" and "precedes a b order"
  shows "precedes a b cs"
proof -
  from assms(1) obtain zs where "order = cs @ zs" by (auto simp: prefix_def)
  then have "set (takeWhile (\<lambda>c. c \<noteq> a) cs) \<subseteq> set (takeWhile (\<lambda>c. c \<noteq> a) order)"
    by (auto simp: takeWhile_append dest: set_takeWhileD)
  then show ?thesis using assms(2) by (auto simp: precedes_def)
qed

lemma precedes_notebook:
  "precedes a b program_order \<Longrightarrow> precedes a b (callees (fst (notebook lib)))"
  by (rule precedes_prefix [OF in_order_prefix [OF in_order_notebook]])

subsection \<open>The cells in a run that raises nothing\<close>

lemma notebook_success:
  assumes "notebook lib = (t, Inr fin)"
  obtains m vqe t2 t3 t4 t5 t6 t7 where
    "cell2 lib = (t2, Inr m)"
    "cell3 lib m = (t3, Inr (variables fin))"
    "cell4 lib (variables fin) = (t4, Inr (ret fin))"
    "cell5 lib = (t5, Inr ())"
    "cell6 lib (variables fin) = (t6, Inr vqe)"
    "cell7 lib (variables fin) vqe = (t7, Inr (results fin))"
    "t = t2 @ t3 @ t4 @ t5 @ t6 @ t7"
  using assms unfolding notebook_def by (auto simp: success)

lemma freezing_step_success:
  "freezing_step lib fl (f0, es0, nso0, np0) = (t, Inr (f1, es1, nso1, np1)) \<Longrightarrow>
   nso1 = nso0 - int (length fl) \<and> np1 = np0 - int (length fl)"
  by (auto simp: freezing_step_def success split: if_splits)

lemma elimination_step_success:
  "elimination_step lib rl (f0, nso0) = (t, Inr (f1, nso1)) \<Longrightarrow> nso1 = nso0 - int (length rl)"
  by (auto simp: elimination_step_def success split: if_splits)

lemma cell3_bookkeeping:
  "cell3_body lib fl0 rl0 mt m = (t, Inr v) \<Longrightarrow>
   num_spin_orbitals v =
     2 * mol_num_orbitals m - int (length (freeze_list v)) - int (length (remove_list v)) \<and>
   num_particles v = mol_num_alpha m + mol_num_beta m - int (length (freeze_list v))"
  by (auto simp: cell3_body_def Let_def success
      dest!: freezing_step_success elimination_step_success)

lemma freezing_step_callees:
  "freezing_step lib fl st = (t, Inr st') \<Longrightarrow>
   ''qubitOp.two_qubit_reduced_operator'' \<notin> set (callees t)"
  by (cases st) (auto simp: freezing_step_def success split: if_splits)

lemma elimination_step_callees:
  "elimination_step lib rl st = (t, Inr st') \<Longrightarrow>
   ''qubitOp.two_qubit_reduced_operator'' \<notin> set (callees t)"
  by (cases st) (auto simp: elimination_step_def success split: if_splits)

lemma cell3_reduction:
  "cell3_body lib fl0 rl0 mt m = (t, Inr v) \<Longrightarrow>
   qubit_reduction v = (mt = ''parity'') \<and>
   (''qubitOp.two_qubit_reduced_operator'' \<in> set (callees t)) = qubit_reduction v \<and>
   (\<exists>q. mapping lib (ferOp v) mt 0.00000001 = Inr q \<and>
      (if qubit_reduction v
       then \<exists>q'. two_qubit_reduced_operator lib q (num_particles v) = Inr q' \<and>
              chop lib q' (1 / 10 ^ 10) = Inr (qubitOp v)
       else chop lib q (1 / 10 ^ 10) = Inr (qubitOp v)))"
  by (auto simp: cell3_body_def Let_def success reduction_step_def
      dest: freezing_step_callees elimination_step_callees split: if_splits)

subsection \<open>The notebook on the demonstration library\<close>

lemmas prog_defs = bnd_def call_def print_def lift_def subscript_def item0_def

lemmas cell_defs =
  cell2_def cell3_def cell3_body_def cell4_def cell5_def cell6_def cell7_def
  freezing_step_def elimination_step_def reduction_step_def index_conversion_def

lemma demo_cell3:
  "cell3_body demo_library [0] [-3, -2] ''parity'' demo_molecule =
     ([Print ''HF energy: {}'' [AFloat (- 9)],
       Print ''# of electrons: {}'' [AInt 4],
       Print ''# of spin orbitals: {}'' [AInt 12],
       Call Construct ''FermionicOperator'' [AObj ''h1'', AObj ''h2''] Returned,
       Call Method ''ferOp.fermion_mode_freezing'' [AIntList [0, 6]] Returned,
       Call Method ''ferOp.fermion_mode_elimination'' [AIntList [2, 3, 7, 8]] Returned,
       Call Method ''ferOp.mapping'' [AStr ''parity'', AFloat 0.00000001] Returned,
       Call Method ''qubitOp.two_qubit_reduced_operator'' [AInt 2] Returned,
       Call Method ''qubitOp.chop'' [AFloat (1 / 10 ^ 10)] Returned],
      Inr \<lparr>freeze_list = [0, 6], remove_list = [2, 3, 7, 8], map_type = ''parity'',
           h1 = ''h1'', h2 = ''h2'', nuclear_repulsion_energy = 1, num_particles = 2,
           num_spin_orbitals = 6, energy_shift = - 7, qubit_reduction = True,
           ferOp = ''ferOp eliminated'', qubitOp = ''qubitOp chopped''\<rparr>)"
  by (simp add: cell_defs prog_defs demo_library_def demo_molecule_def Let_def)

lemma demo_cell3_jordan_wigner:
  "cell3_body demo_library [0] [-3, -2] ''jordan_wigner'' demo_molecule =
     ([Print ''HF energy: {}'' [AFloat (- 9)],
       Print ''# of electrons: {}'' [AInt 4],
       Print ''# of spin orbitals: {}'' [AInt 12],
       Call Construct ''FermionicOperator'' [AObj ''h1'', AObj ''h2''] Returned,
       Call Method ''ferOp.fermion_mode_freezing'' [AIntList [0, 6]] Returned,
       Call Method ''ferOp.fermion_mode_elimination'' [AIntList [2, 3, 7, 8]] Returned,
       Call Method ''ferOp.mapping'' [AStr ''jordan_wigner'', AFloat 0.00000001] Returned,
       Call Method ''qubitOp.chop'' [AFloat (1 / 10 ^ 10)] Returned],
      Inr \<lparr>freeze_list = [0, 6], remove_list = [2, 3, 7, 8], map_type = ''jordan_wigner'',
           h1 = ''h1'', h2 = ''h2'', nuclear_repulsion_energy = 1, num_particles = 2,
           num_spin_orbitals = 6, energy_shift = - 7, qubit_reduction = False,
           ferOp = ''ferOp eliminated'', qubitOp = ''qubitOp chopped''\<rparr>)"
  by (simp add: cell_defs prog_defs demo_library_def demo_molecule_def Let_def)

lemma demo_notebook_callees:
  "callees (fst (notebook demo_library)) = program_order \<and>
   (\<exists>fin. snd (notebook demo_library) = Inr fin)"
  by (simp add: notebook_def cell_defs prog_defs demo_library_def demo_molecule_def Let_def
      program_order_def)

subsection \<open>What the cells pass and print in a run that raises nothing\<close>

lemma cell3_success:
  assumes "cell3 lib m = (t, Inr v)"
  shows "mol_num_orbitals m \<noteq> 0"
    and "freeze_list v = [0, mol_num_orbitals m]"
    and "remove_list v =
          [(- 3) mod mol_num_orbitals m - 1, (- 2) mod mol_num_orbitals m - 1,
           (- 3) mod mol_num_orbitals m - 1 + mol_num_orbitals m - 1,
           (- 2) mod mol_num_orbitals m - 1 + mol_num_orbitals m - 1]"
    and "num_particles v = mol_num_alpha m + mol_num_beta m - 2"
    and "num_spin_orbitals v = 2 * mol_num_orbitals m - 6"
    and "qubit_reduction v" and "map_type v = ''parity''"
    and "nuclear_repulsion_energy v = mol_nuclear_repulsion_energy m"
    and "\<exists>f0 f1. FermionicOperator lib (mol_one_body_integrals m) (mol_two_body_integrals m) = Inr f0 \<and>
           fermion_mode_freezing lib f0 (freeze_list v) = Inr (f1, energy_shift v)"
    and "calls t =
          [(''FermionicOperator'', [AObj (mol_one_body_integrals m), AObj (mol_two_body_integrals m)]),
           (''ferOp.fermion_mode_freezing'', [AIntList (freeze_list v)]),
           (''ferOp.fermion_mode_elimination'', [AIntList (remove_list v)]),
           (''ferOp.mapping'', [AStr ''parity'', AFloat 0.00000001]),
           (''qubitOp.two_qubit_reduced_operator'', [AInt (num_particles v)]),
           (''qubitOp.chop'', [AFloat (1 / 10 ^ 10)])]"
proof -
  show nz: "mol_num_orbitals m \<noteq> 0"
    using assms unfolding cell3_linear_eq cell3_linear_def Let_def
    by (auto simp: success index_conversion_zero)
  have c: "\<exists>f0 f1 es f2 q2.
      FermionicOperator lib (mol_one_body_integrals m) (mol_two_body_integrals m) = Inr f0 \<and>
      fermion_mode_freezing lib f0 [0, mol_num_orbitals m] = Inr (f1, es) \<and>
      v = \<lparr>freeze_list = [0, mol_num_orbitals m],
             remove_list =
               [(- 3) mod mol_num_orbitals m - 1, (- 2) mod mol_num_orbitals m - 1,
                (- 3) mod mol_num_orbitals m - 1 + mol_num_orbitals m - 1,
                (- 2) mod mol_num_orbitals m - 1 + mol_num_orbitals m - 1],
             map_type = ''parity'', h1 = mol_one_body_integrals m,
             h2 = mol_two_body_integrals m,
             nuclear_repulsion_energy = mol_nuclear_repulsion_energy m,
             num_particles = mol_num_alpha m + mol_num_beta m - 2,
             num_spin_orbitals = 2 * mol_num_orbitals m - 6,
             energy_shift = es, qubit_reduction = True, ferOp = f2, qubitOp = q2\<rparr> \<and>
      calls t =
          [(''FermionicOperator'', [AObj (mol_one_body_integrals m), AObj (mol_two_body_integrals m)]),
           (''ferOp.fermion_mode_freezing'', [AIntList [0, mol_num_orbitals m]]),
           (''ferOp.fermion_mode_elimination'',
            [AIntList [(- 3) mod mol_num_orbitals m - 1, (- 2) mod mol_num_orbitals m - 1,
                (- 3) mod mol_num_orbitals m - 1 + mol_num_orbitals m - 1,
                (- 2) mod mol_num_orbitals m - 1 + mol_num_orbitals m - 1]]),
           (''ferOp.mapping'', [AStr ''parity'', AFloat 0.00000001]),
           (''qubitOp.two_qubit_reduced_operator'', [AInt (mol_num_alpha m + mol_num_beta m - 2)]),
           (''qubitOp.chop'', [AFloat (1 / 10 ^ 10)])]"
    using assms nz unfolding cell3_linear_eq cell3_linear_def Let_def
    by (auto simp: success index_conversion_settings)
  show "freeze_list v = [0, mol_num_orbitals m]" using c by (elim exE conjE) simp
  show "remove_list v =
          [(- 3) mod mol_num_orbitals m - 1, (- 2) mod mol_num_orbitals m - 1,
           (- 3) mod mol_num_orbitals m - 1 + mol_num_orbitals m - 1,
           (- 2) mod mol_num_orbitals m - 1 + mol_num_orbitals m - 1]" using c by (elim exE conjE) simp
  show "num_particles v = mol_num_alpha m + mol_num_beta m - 2" using c by (elim exE conjE) simp
  show "num_spin_orbitals v = 2 * mol_num_orbitals m - 6" using c by (elim exE conjE) simp
  show "qubit_reduction v" using c by (elim exE conjE) simp
  show "map_type v = ''parity''" using c by (elim exE conjE) simp
  show "nuclear_repulsion_energy v = mol_nuclear_repulsion_energy m" using c by (elim exE conjE) simp
  show "\<exists>f0 f1. FermionicOperator lib (mol_one_body_integrals m) (mol_two_body_integrals m) = Inr f0 \<and>
           fermion_mode_freezing lib f0 (freeze_list v) = Inr (f1, energy_shift v)"
    using c by (elim exE conjE) simp
  show "calls t =
          [(''FermionicOperator'', [AObj (mol_one_body_integrals m), AObj (mol_two_body_integrals m)]),
           (''ferOp.fermion_mode_freezing'', [AIntList (freeze_list v)]),
           (''ferOp.fermion_mode_elimination'', [AIntList (remove_list v)]),
           (''ferOp.mapping'', [AStr ''parity'', AFloat 0.00000001]),
           (''qubitOp.two_qubit_reduced_operator'', [AInt (num_particles v)]),
           (''qubitOp.chop'', [AFloat (1 / 10 ^ 10)])]"
    using c by (elim exE conjE) simp
qed








lemma demo_notebook_succeeds:
  "\<exists>fin. notebook demo_library = (fst (notebook demo_library), Inr fin)"
  using demo_notebook_callees by (auto simp: prod_eq_iff)

subsection \<open>The values passed in a run that raises nothing\<close>

lemma cell2_calls:
  assumes "cell2 lib = (t, Inr m)"
  shows "\<exists>cfg_mgr driver.
      ConfigurationManager lib = Inr cfg_mgr \<and>
      get_driver_instance lib cfg_mgr ''PYSCF'' = Inr driver \<and>
      driver_run lib driver section_dict = Inr m \<and>
      calls t =
        [(''ConfigurationManager'', []),
         (''cfg_mgr.get_driver_instance'', [AStr ''PYSCF'']),
         (''driver.run'', [ASection section_dict])]"
  using assms unfolding cell2_def by (auto simp: success)

lemma cell4_calls:
  assumes "cell4 lib v = (t, Inr r)"
  shows "calls t =
      [(''get_algorithm_instance'', [AStr ''ExactEigensolver'']),
       (''exact_eigensolver.init_args'', [AObj (qubitOp v), AInt 1]),
       (''exact_eigensolver.run'', [])]"
  using assms unfolding cell4_def by (auto simp: success)

lemma cell5_calls:
  assumes "cell5 lib = (t, Inr u)"
  shows "calls t = [(''IBMQ.load_accounts'', [])]"
  using assms unfolding cell5_def by (auto simp: success)

lemma cell6_calls:
  assumes "cell6 lib v = (t, Inr a)"
  shows "\<exists>cobyla HF_state var_form.
      calls t =
        [(''get_optimizer_instance'', [AStr ''COBYLA'']),
         (''cobyla.set_options'', [AInt 200]),
         (''get_initial_state_instance'', [AStr ''HartreeFock'']),
         (''HF_state.init_args'',
          [AInt (num_qubits lib (qubitOp v)), AInt (num_spin_orbitals v), AStr (map_type v),
           ABool (qubit_reduction v), AInt (num_particles v)]),
         (''get_variational_form_instance'', [AStr ''UCCSD'']),
         (''var_form.init_args'',
          [AInt (num_qubits lib (qubitOp v)), AInt 1, AInt (num_spin_orbitals v),
           AInt (num_particles v), AIntList [0], AIntList [0, 1], AObj HF_state,
           AStr (map_type v), ABool (qubit_reduction v), AInt 1]),
         (''get_algorithm_instance'', [AStr ''VQE'']),
         (''vqe_algorithm.setup_quantum_backend'', [AStr ''statevector_simulator'']),
         (''vqe_algorithm.init_args'',
          [AObj (qubitOp v), AStr ''matrix'', AObj var_form, AObj cobyla])]"
  using assms unfolding cell6_def Let_def by (auto simp: success)

lemma cell7_calls:
  assumes "cell7 lib v a = (t, Inr r)"
  shows "calls t = [(''vqe_algorithm.run'', [])]"
  using assms unfolding cell7_def by (auto simp: success)

lemma notebook_calls:
  assumes "notebook lib = (t, Inr fin)"
  shows "\<exists>cfg_mgr driver molecule cobyla HF_state var_form.
     ConfigurationManager lib = Inr cfg_mgr \<and>
     get_driver_instance lib cfg_mgr ''PYSCF'' = Inr driver \<and>
     driver_run lib driver section_dict = Inr molecule \<and>
     calls t =
       [(''ConfigurationManager'', []),
        (''cfg_mgr.get_driver_instance'', [AStr ''PYSCF'']),
        (''driver.run'', [ASection section_dict]),
        (''FermionicOperator'',
         [AObj (mol_one_body_integrals molecule), AObj (mol_two_body_integrals molecule)]),
        (''ferOp.fermion_mode_freezing'', [AIntList [0, mol_num_orbitals molecule]]),
        (''ferOp.fermion_mode_elimination'',
         [AIntList
           [(- 3) mod mol_num_orbitals molecule - 1, (- 2) mod mol_num_orbitals molecule - 1,
            (- 3) mod mol_num_orbitals molecule - 1 + mol_num_orbitals molecule - 1,
            (- 2) mod mol_num_orbitals molecule - 1 + mol_num_orbitals molecule - 1]]),
        (''ferOp.mapping'', [AStr ''parity'', AFloat 0.00000001]),
        (''qubitOp.two_qubit_reduced_operator'',
         [AInt (mol_num_alpha molecule + mol_num_beta molecule - 2)]),
        (''qubitOp.chop'', [AFloat (1 / 10 ^ 10)]),
        (''get_algorithm_instance'', [AStr ''ExactEigensolver'']),
        (''exact_eigensolver.init_args'', [AObj (qubitOp (variables fin)), AInt 1]),
        (''exact_eigensolver.run'', []),
        (''IBMQ.load_accounts'', []),
        (''get_optimizer_instance'', [AStr ''COBYLA'']),
        (''cobyla.set_options'', [AInt 200]),
        (''get_initial_state_instance'', [AStr ''HartreeFock'']),
        (''HF_state.init_args'',
         [AInt (num_qubits lib (qubitOp (variables fin))),
          AInt (2 * mol_num_orbitals molecule - 6), AStr ''parity'', ABool True,
          AInt (mol_num_alpha molecule + mol_num_beta molecule - 2)]),
        (''get_variational_form_instance'', [AStr ''UCCSD'']),
        (''var_form.init_args'',
         [AInt (num_qubits lib (qubitOp (variables fin))), AInt 1,
          AInt (2 * mol_num_orbitals molecule - 6),
          AInt (mol_num_alpha molecule + mol_num_beta molecule - 2),
          AIntList [0], AIntList [0, 1], AObj HF_state, AStr ''parity'', ABool True, AInt 1]),
        (''get_algorithm_instance'', [AStr ''VQE'']),
        (''vqe_algorithm.setup_quantum_backend'', [AStr ''statevector_simulator'']),
        (''vqe_algorithm.init_args'',
         [AObj (qubitOp (variables fin)), AStr ''matrix'', AObj var_form, AObj cobyla]),
        (''vqe_algorithm.run'', [])]"
proof -
  from assms obtain m vqe t2 t3 t4 t5 t6 t7 where
    c2: "cell2 lib = (t2, Inr m)" and
    c3: "cell3 lib m = (t3, Inr (variables fin))" and
    c4: "cell4 lib (variables fin) = (t4, Inr (ret fin))" and
    c5: "cell5 lib = (t5, Inr ())" and
    c6: "cell6 lib (variables fin) = (t6, Inr vqe)" and
    c7: "cell7 lib (variables fin) vqe = (t7, Inr (results fin))" and
    t: "t = t2 @ t3 @ t4 @ t5 @ t6 @ t7"
    by (rule notebook_success)
  from cell2_calls [OF c2] obtain cfg_mgr driver where
    l: "ConfigurationManager lib = Inr cfg_mgr"
      "get_driver_instance lib cfg_mgr ''PYSCF'' = Inr driver"
      "driver_run lib driver section_dict = Inr m"
    and k2: "calls t2 =
        [(''ConfigurationManager'', []),
         (''cfg_mgr.get_driver_instance'', [AStr ''PYSCF'']),
         (''driver.run'', [ASection section_dict])]"
    by (elim exE conjE)
  note s = cell3_success [OF c3]
  from cell6_calls [OF c6] obtain cobyla HF_state var_form where
    k6: "calls t6 =
        [(''get_optimizer_instance'', [AStr ''COBYLA'']),
         (''cobyla.set_options'', [AInt 200]),
         (''get_initial_state_instance'', [AStr ''HartreeFock'']),
         (''HF_state.init_args'',
          [AInt (num_qubits lib (qubitOp (variables fin))),
           AInt (num_spin_orbitals (variables fin)), AStr (map_type (variables fin)),
           ABool (qubit_reduction (variables fin)), AInt (num_particles (variables fin))]),
         (''get_variational_form_instance'', [AStr ''UCCSD'']),
         (''var_form.init_args'',
          [AInt (num_qubits lib (qubitOp (variables fin))), AInt 1,
           AInt (num_spin_orbitals (variables fin)),
           AInt (num_particles (variables fin)), AIntList [0], AIntList [0, 1], AObj HF_state,
           AStr (map_type (variables fin)), ABool (qubit_reduction (variables fin)), AInt 1]),
         (''get_algorithm_instance'', [AStr ''VQE'']),
         (''vqe_algorithm.setup_quantum_backend'', [AStr ''statevector_simulator'']),
         (''vqe_algorithm.init_args'',
          [AObj (qubitOp (variables fin)), AStr ''matrix'', AObj var_form, AObj cobyla])]"
    by (elim exE)
  have k0: "calls t = calls t2 @ calls t3 @ calls t4 @ calls t5 @ calls t6 @ calls t7"
    by (simp add: t)
  note k = k0 [unfolded k2 s(10) cell4_calls [OF c4] cell5_calls [OF c5] k6
      cell7_calls [OF c7] s(2) s(3) s(4) s(5) s(7)]
  show ?thesis
    apply (rule exI [of _ cfg_mgr], rule exI [of _ driver], rule exI [of _ m],
        rule exI [of _ cobyla], rule exI [of _ HF_state], rule exI [of _ var_form])
    apply (intro conjI l)
    using k s(6) by simp
qed

subsection \<open>Runs that end at a call that raised\<close>



lemma ends_raising_Cons:
  assumes "raised ev = []"
  shows "ends_raising (ev # t, r) k f args e \<longleftrightarrow> ends_raising (t, r) k f args e"
proof -
  have "(\<exists>us. ev # t = us @ [Call k f args (Raised e)]) \<longleftrightarrow>
      (\<exists>us. t = us @ [Call k f args (Raised e)])"
  proof
    assume "\<exists>us. ev # t = us @ [Call k f args (Raised e)]"
    then obtain us where us: "ev # t = us @ [Call k f args (Raised e)]" ..
    show "\<exists>us. t = us @ [Call k f args (Raised e)]"
    proof (cases us)
      case Nil
      then show ?thesis using us assms by auto
    next
      case (Cons u us')
      then show ?thesis using us by auto
    qed
  next
    assume "\<exists>us. t = us @ [Call k f args (Raised e)]"
    then obtain us where "t = us @ [Call k f args (Raised e)]" ..
    then have "ev # t = (ev # us) @ [Call k f args (Raised e)]" by simp
    then show "\<exists>us. ev # t = us @ [Call k f args (Raised e)]" by blast
  qed
  then show ?thesis using assms by (simp add: ends_raising_def)
qed




lemma ends_raising_append:
  assumes "raises t' = []"
  shows "ends_raising (t' @ t, r) k f args e \<longleftrightarrow> ends_raising (t, r) k f args e"
  using assms
proof (induction t')
  case Nil
  then show ?case by simp
next
  case (Cons ev t')
  then have "raised ev = []" and "raises t' = []" by simp_all
  then show ?case using Cons.IH by (simp add: ends_raising_Cons)
qed

lemma ends_raising_bnd_completed:
  assumes "p = (t', Inr x)" and "unhandled p"
  shows "ends_raising (bnd p g) k f args e \<longleftrightarrow> ends_raising (g x) k f args e"
proof -
  have "raises t' = []" using assms by (simp add: unhandled_def)
  moreover have "bnd p g = (t' @ fst (g x), snd (g x))"
    using assms(1) by (simp add: bnd_def)
  ultimately show ?thesis by (simp add: ends_raising_append)
qed


lemma ends_raising_bnd_pair:
  "raises t' = [] \<Longrightarrow>
   ends_raising (bnd (t', Inr x) g) k f args e \<longleftrightarrow> ends_raising (g x) k f args e"
  by (simp add: bnd_def ends_raising_append)

lemma completed_raises: "p = (t, Inr x) \<Longrightarrow> unhandled p \<Longrightarrow> raises t = []"
  by (simp add: unhandled_def)



lemma demo_cell3_other_hf_energy:
  "\<exists>t. cell3 demo_library (demo_molecule\<lparr>mol_hf_energy := - 5\<rparr>) =
     (t, Inr \<lparr>freeze_list = [0, 6], remove_list = [2, 3, 7, 8], map_type = ''parity'',
           h1 = ''h1'', h2 = ''h2'', nuclear_repulsion_energy = 1, num_particles = 2,
           num_spin_orbitals = 6, energy_shift = - 7, qubit_reduction = True,
           ferOp = ''ferOp eliminated'', qubitOp = ''qubitOp chopped''\<rparr>)"
  by (simp add: cell_defs prog_defs demo_library_def demo_molecule_def Let_def)

section \<open>The claims\<close>

subsection \<open>C1: what the notebook passes to the library\<close>

text \<open>
  C1, as the specification states it, fails: the notebook passes to
  \<open>fermion_mode_freezing\<close> and to \<open>fermion_mode_elimination\<close> lists that it builds itself.
  On the demonstration molecule they are \<open>[0, 6]\<close> and \<open>[2, 3, 7, 8]\<close>, and neither is an
  attribute of the molecule.
\<close>

theorem passes_converted_lists:
  "Call Method ''ferOp.fermion_mode_freezing'' [AIntList [0, 6]] Returned
     \<in> set (fst (cell3 demo_library demo_molecule)) \<and>
   Call Method ''ferOp.fermion_mode_elimination'' [AIntList [2, 3, 7, 8]] Returned
     \<in> set (fst (cell3 demo_library demo_molecule)) \<and>
   AIntList [0, 6] \<notin> set (attributes demo_molecule) \<and>
   AIntList [2, 3, 7, 8] \<notin> set (attributes demo_molecule)"
  by (simp add: cell3_def demo_cell3 attributes_def)

text \<open>
  C1, amended: in a run that raises nothing, every value the notebook passes to the
  library is a literal, an object of the library, an attribute passed on as it was read
  (the two integrals to \<open>FermionicOperator\<close>, \<open>qubitOp.num_qubits\<close> to the two
  \<open>init_args\<close>), or a value the notebook computes itself from the attributes of the
  molecule: with \<open>n\<close> orbitals, \<open>[0, n]\<close> goes to \<open>fermion_mode_freezing\<close>,
  \<open>[-3 % n - 1, -2 % n - 1, -3 % n - 1 + n - 1, -2 % n - 1 + n - 1]\<close> to
  \<open>fermion_mode_elimination\<close>, the number of particles \<open>num_alpha + num_beta - 2\<close> to
  \<open>two_qubit_reduced_operator\<close>, \<open>HF_state.init_args\<close> and \<open>var_form.init_args\<close>, and the
  number of spin orbitals \<open>2 n - 6\<close> to \<open>HF_state.init_args\<close> and \<open>var_form.init_args\<close>.
  The theorem lists every call of the run with the values passed, for the molecule that
  the driver returned.
\<close>

theorem values_passed_by_notebook:
  "notebook lib = (t, Inr fin) \<Longrightarrow>
   \<exists>cfg_mgr driver molecule cobyla HF_state var_form.
     ConfigurationManager lib = Inr cfg_mgr \<and>
     get_driver_instance lib cfg_mgr ''PYSCF'' = Inr driver \<and>
     driver_run lib driver section_dict = Inr molecule \<and>
     calls t =
       [(''ConfigurationManager'', []),
        (''cfg_mgr.get_driver_instance'', [AStr ''PYSCF'']),
        (''driver.run'', [ASection section_dict]),
        (''FermionicOperator'',
         [AObj (mol_one_body_integrals molecule), AObj (mol_two_body_integrals molecule)]),
        (''ferOp.fermion_mode_freezing'', [AIntList [0, mol_num_orbitals molecule]]),
        (''ferOp.fermion_mode_elimination'',
         [AIntList
           [(- 3) mod mol_num_orbitals molecule - 1, (- 2) mod mol_num_orbitals molecule - 1,
            (- 3) mod mol_num_orbitals molecule - 1 + mol_num_orbitals molecule - 1,
            (- 2) mod mol_num_orbitals molecule - 1 + mol_num_orbitals molecule - 1]]),
        (''ferOp.mapping'', [AStr ''parity'', AFloat 0.00000001]),
        (''qubitOp.two_qubit_reduced_operator'',
         [AInt (mol_num_alpha molecule + mol_num_beta molecule - 2)]),
        (''qubitOp.chop'', [AFloat (1 / 10 ^ 10)]),
        (''get_algorithm_instance'', [AStr ''ExactEigensolver'']),
        (''exact_eigensolver.init_args'', [AObj (qubitOp (variables fin)), AInt 1]),
        (''exact_eigensolver.run'', []),
        (''IBMQ.load_accounts'', []),
        (''get_optimizer_instance'', [AStr ''COBYLA'']),
        (''cobyla.set_options'', [AInt 200]),
        (''get_initial_state_instance'', [AStr ''HartreeFock'']),
        (''HF_state.init_args'',
         [AInt (num_qubits lib (qubitOp (variables fin))),
          AInt (2 * mol_num_orbitals molecule - 6), AStr ''parity'', ABool True,
          AInt (mol_num_alpha molecule + mol_num_beta molecule - 2)]),
        (''get_variational_form_instance'', [AStr ''UCCSD'']),
        (''var_form.init_args'',
         [AInt (num_qubits lib (qubitOp (variables fin))), AInt 1,
          AInt (2 * mol_num_orbitals molecule - 6),
          AInt (mol_num_alpha molecule + mol_num_beta molecule - 2),
          AIntList [0], AIntList [0, 1], AObj HF_state, AStr ''parity'', ABool True, AInt 1]),
        (''get_algorithm_instance'', [AStr ''VQE'']),
        (''vqe_algorithm.setup_quantum_backend'', [AStr ''statevector_simulator'']),
        (''vqe_algorithm.init_args'',
         [AObj (qubitOp (variables fin)), AStr ''matrix'', AObj var_form, AObj cobyla]),
        (''vqe_algorithm.run'', [])]"
  by (rule notebook_calls)

theorem values_passed_by_notebook_demo:
  "\<exists>t fin. notebook demo_library = (t, Inr fin) \<and>
     (''FermionicOperator'', [AObj ''h1'', AObj ''h2'']) \<in> set (calls t) \<and>
     (''ferOp.fermion_mode_freezing'', [AIntList [0, 6]]) \<in> set (calls t) \<and>
     (''ferOp.fermion_mode_elimination'', [AIntList [2, 3, 7, 8]]) \<in> set (calls t) \<and>
     (''qubitOp.two_qubit_reduced_operator'', [AInt 2]) \<in> set (calls t) \<and>
     (''HF_state.init_args'', [AInt 4, AInt 6, AStr ''parity'', ABool True, AInt 2])
       \<in> set (calls t)"
proof -
  from demo_notebook_succeeds obtain fin where
    n: "notebook demo_library = (fst (notebook demo_library), Inr fin)" ..
  from values_passed_by_notebook [OF n] obtain cfg_mgr driver molecule cobyla HF_state var_form
    where m: "driver_run demo_library driver section_dict = Inr molecule"
      and k: "calls (fst (notebook demo_library)) =
       [(''ConfigurationManager'', []),
        (''cfg_mgr.get_driver_instance'', [AStr ''PYSCF'']),
        (''driver.run'', [ASection section_dict]),
        (''FermionicOperator'',
         [AObj (mol_one_body_integrals molecule), AObj (mol_two_body_integrals molecule)]),
        (''ferOp.fermion_mode_freezing'', [AIntList [0, mol_num_orbitals molecule]]),
        (''ferOp.fermion_mode_elimination'',
         [AIntList
           [(- 3) mod mol_num_orbitals molecule - 1, (- 2) mod mol_num_orbitals molecule - 1,
            (- 3) mod mol_num_orbitals molecule - 1 + mol_num_orbitals molecule - 1,
            (- 2) mod mol_num_orbitals molecule - 1 + mol_num_orbitals molecule - 1]]),
        (''ferOp.mapping'', [AStr ''parity'', AFloat 0.00000001]),
        (''qubitOp.two_qubit_reduced_operator'',
         [AInt (mol_num_alpha molecule + mol_num_beta molecule - 2)]),
        (''qubitOp.chop'', [AFloat (1 / 10 ^ 10)]),
        (''get_algorithm_instance'', [AStr ''ExactEigensolver'']),
        (''exact_eigensolver.init_args'', [AObj (qubitOp (variables fin)), AInt 1]),
        (''exact_eigensolver.run'', []),
        (''IBMQ.load_accounts'', []),
        (''get_optimizer_instance'', [AStr ''COBYLA'']),
        (''cobyla.set_options'', [AInt 200]),
        (''get_initial_state_instance'', [AStr ''HartreeFock'']),
        (''HF_state.init_args'',
         [AInt (num_qubits demo_library (qubitOp (variables fin))),
          AInt (2 * mol_num_orbitals molecule - 6), AStr ''parity'', ABool True,
          AInt (mol_num_alpha molecule + mol_num_beta molecule - 2)]),
        (''get_variational_form_instance'', [AStr ''UCCSD'']),
        (''var_form.init_args'',
         [AInt (num_qubits demo_library (qubitOp (variables fin))), AInt 1,
          AInt (2 * mol_num_orbitals molecule - 6),
          AInt (mol_num_alpha molecule + mol_num_beta molecule - 2),
          AIntList [0], AIntList [0, 1], AObj HF_state, AStr ''parity'', ABool True, AInt 1]),
        (''get_algorithm_instance'', [AStr ''VQE'']),
        (''vqe_algorithm.setup_quantum_backend'', [AStr ''statevector_simulator'']),
        (''vqe_algorithm.init_args'',
         [AObj (qubitOp (variables fin)), AStr ''matrix'', AObj var_form, AObj cobyla]),
        (''vqe_algorithm.run'', [])]"
    by (elim exE conjE)
  from m have molecule: "molecule = demo_molecule"
    by (simp add: demo_library_def)
  have q: "num_qubits demo_library (qubitOp (variables fin)) = 4"
    by (simp add: demo_library_def)
  show ?thesis
    by (rule exI [of _ "fst (notebook demo_library)"], rule exI [of _ fin], intro conjI n)
      (simp_all add: k molecule q demo_molecule_def)
qed

subsection \<open>C2: the index conversion of the notebook's settings\<close>

text \<open>
  C2, as the specification states it, fails for four and for five orbitals: with four
  orbitals the lists are \<open>[0, 4]\<close> and \<open>[0, 1, 3, 4]\<close>, and the indices 0 and 4 stand in
  both, so the resulting indices are not pairwise distinct.
\<close>

theorem index_conversion_four_orbitals:
  "(case index_conversion 4 [0] [-3, -2] :: unit exn + int list \<times> int list of
      Inl e \<Rightarrow> False
    | Inr (fl, rl) \<Rightarrow> fl = [0, 4] \<and> rl = [0, 1, 3, 4] \<and> \<not> distinct (fl @ rl))"
  by (simp add: index_conversion_def)

text \<open>
  C2, amended: for \<open>freeze_list = [0]\<close>, \<open>remove_list = [-3, -2]\<close> and every number of
  orbitals \<open>n \<ge> 4\<close> the index conversion produces \<open>freeze_list = [0, n]\<close> and
  \<open>remove_list = [n - 4, n - 3, 2 n - 5, 2 n - 4]\<close>; the indices of each list are pairwise
  distinct, and from \<open>n = 6\<close> on the indices of both lists together are.
\<close>

theorem converted_lists_of_settings:
  "4 \<le> n \<Longrightarrow>
   index_conversion n [0] [-3, -2] = Inr ([0, n], [n - 4, n - 3, 2 * n - 5, 2 * n - 4]) \<and>
   distinct [0, n] \<and> distinct [n - 4, n - 3, 2 * n - 5, 2 * n - 4] \<and>
   (6 \<le> n \<longrightarrow> distinct ([0, n] @ [n - 4, n - 3, 2 * n - 5, 2 * n - 4]))"
proof -
  assume n: "4 \<le> n"
  have m3: "(- 3) mod n = n - 3" using neg_mod_shift [of 3 n] n by simp
  have m2: "(- 2) mod n = n - 2" using neg_mod_shift [of 2 n] n by simp
  have "n \<noteq> 0" using n by simp
  then have "index_conversion n [0] [-3, -2] =
      Inr ([0, n], [n - 4, n - 3, 2 * n - 5, 2 * n - 4])"
    by (simp add: index_conversion_nonzero m3 m2)
  moreover have "distinct [0, n]" using n by simp
  moreover have "distinct [n - 4, n - 3, 2 * n - 5, 2 * n - 4]" using n by simp
  moreover have "6 \<le> n \<longrightarrow> distinct ([0, n] @ [n - 4, n - 3, 2 * n - 5, 2 * n - 4])" by auto
  ultimately show ?thesis by blast
qed

theorem index_conversion_six_orbitals:
  "(4::int) \<le> 6 \<and> index_conversion 6 [0] [-3, -2] = Inr ([0, 6], [2, 3, 7, 8]) \<and>
   distinct ([0, 6] @ [2, 3, 7, 8::int])"
  using converted_lists_of_settings [of 6] by simp

subsection \<open>C3: the bookkeeping of orbitals and particles\<close>

text \<open>
  C3, as the specification states it, denies a relation that the code maintains. On
  the demonstration library the lists have two and four entries after cell 3, and the
  numbers of spin orbitals and of particles are \<open>2 * 6 - 2 - 4\<close> and \<open>2 + 2 - 2\<close>; and no
  run of the cell, on any library, settings and molecule, ends with the relation broken.
\<close>

theorem bookkeeping_relation_is_maintained:
  "(\<exists>t v. cell3 demo_library demo_molecule = (t, Inr v) \<and>
       length (freeze_list v) = 2 \<and> length (remove_list v) = 4 \<and>
       num_spin_orbitals v = 2 * 6 - 2 - 4 \<and> num_particles v = 2 + 2 - 2) \<and>
   \<not> (\<exists>(lib :: (string, string) library) fl0 rl0 mt m t v.
        cell3_body lib fl0 rl0 mt m = (t, Inr v) \<and>
        \<not> (num_spin_orbitals v =
             2 * mol_num_orbitals m - int (length (freeze_list v)) -
             int (length (remove_list v)) \<and>
           num_particles v =
             mol_num_alpha m + mol_num_beta m - int (length (freeze_list v))))"
proof
  show "\<exists>t v. cell3 demo_library demo_molecule = (t, Inr v) \<and>
       length (freeze_list v) = 2 \<and> length (remove_list v) = 4 \<and>
       num_spin_orbitals v = 2 * 6 - 2 - 4 \<and> num_particles v = 2 + 2 - 2"
    unfolding cell3_def demo_cell3 by simp
next
  show "\<not> (\<exists>(lib :: (string, string) library) fl0 rl0 mt m t v.
        cell3_body lib fl0 rl0 mt m = (t, Inr v) \<and>
        \<not> (num_spin_orbitals v =
             2 * mol_num_orbitals m - int (length (freeze_list v)) -
             int (length (remove_list v)) \<and>
           num_particles v =
             mol_num_alpha m + mol_num_beta m - int (length (freeze_list v))))"
    using cell3_bookkeeping by blast
qed

text \<open>
  C3, amended: the notebook maintains a relation between its counters and its lists.
  Whenever cell 3 ends without an exception, whatever the settings \<open>freeze_list\<close>,
  \<open>remove_list\<close> and \<open>map_type\<close>, the library and the molecule,
  \<open>num_spin_orbitals = 2 * num_orbitals - len(freeze_list) - len(remove_list)\<close> and
  \<open>num_particles = num_alpha + num_beta - len(freeze_list)\<close> hold for the converted lists.
\<close>

theorem bookkeeping_relation:
  "cell3_body lib freeze_list0 remove_list0 map_type' molecule = (t, Inr v) \<Longrightarrow>
   num_spin_orbitals v =
     2 * mol_num_orbitals molecule - int (length (freeze_list v)) -
     int (length (remove_list v)) \<and>
   num_particles v =
     mol_num_alpha molecule + mol_num_beta molecule - int (length (freeze_list v))"
  by (rule cell3_bookkeeping)

theorem bookkeeping_relation_demo:
  "\<exists>t v. cell3_body demo_library [0] [-3, -2] ''parity'' demo_molecule = (t, Inr v) \<and>
     num_spin_orbitals v = 6 \<and> num_particles v = 2 \<and>
     length (freeze_list v) = 2 \<and> length (remove_list v) = 4"
  using bookkeeping_relation [OF demo_cell3] demo_cell3
  by (simp add: demo_molecule_def)

subsection \<open>C4: the conditionals of the notebook\<close>

text \<open>
  C4: with the settings the notebook fixes, its three conditionals never change what it
  does. On every library, the notebook and the straight-line program without the
  conditionals have the same trace and the same result.
\<close>

theorem notebook_is_linear: "notebook lib = notebook_linear lib"
  by (simp add: notebook_def notebook_linear_def cell3_linear_eq)

subsection \<open>C5: how the notebook obtains objects and results\<close>




subsection \<open>C6: exceptions of the library\<close>



subsection \<open>C7: the order of the calls\<close>

text \<open>
  C7: on every library, the calls of a run are the calls of the notebook in the order of
  its text, up to the end or up to the statement that raised. So the driver runs before
  the fermionic operator is constructed, freezing comes before elimination, elimination
  before the mapping, the mapping before the two-qubit reduction, the reduction before
  \<open>chop\<close>, and \<open>chop\<close> before either eigensolver runs; a run that raises nothing makes
  all the calls. The model is sequential: two calls never overlap.
\<close>

theorem calls_in_program_order:
  "prefix (callees (fst (notebook lib))) program_order \<and>
   precedes ''driver.run'' ''FermionicOperator'' (callees (fst (notebook lib))) \<and>
   precedes ''FermionicOperator'' ''ferOp.fermion_mode_freezing''
     (callees (fst (notebook lib))) \<and>
   precedes ''ferOp.fermion_mode_freezing'' ''ferOp.fermion_mode_elimination''
     (callees (fst (notebook lib))) \<and>
   precedes ''ferOp.fermion_mode_elimination'' ''ferOp.mapping''
     (callees (fst (notebook lib))) \<and>
   precedes ''ferOp.mapping'' ''qubitOp.two_qubit_reduced_operator''
     (callees (fst (notebook lib))) \<and>
   precedes ''qubitOp.two_qubit_reduced_operator'' ''qubitOp.chop''
     (callees (fst (notebook lib))) \<and>
   precedes ''qubitOp.chop'' ''exact_eigensolver.run'' (callees (fst (notebook lib))) \<and>
   precedes ''qubitOp.chop'' ''vqe_algorithm.run'' (callees (fst (notebook lib))) \<and>
   (snd (notebook lib) = Inr fin \<longrightarrow> callees (fst (notebook lib)) = program_order)"
proof -
  have "prefix (callees (fst (notebook lib))) program_order"
    by (rule in_order_prefix [OF in_order_notebook])
  moreover have "precedes a b (callees (fst (notebook lib)))"
    if "precedes a b program_order" for a b
    using that by (rule precedes_notebook)
  moreover have "snd (notebook lib) = Inr fin \<longrightarrow> callees (fst (notebook lib)) = program_order"
    using in_order_notebook [of lib] by (auto simp: in_order_def)
  ultimately show ?thesis
    by (simp add: precedes_def program_order_def)
qed

theorem calls_in_program_order_demo:
  "\<exists>fin. snd (notebook demo_library) = Inr fin \<and>
     callees (fst (notebook demo_library)) = program_order \<and>
     precedes ''qubitOp.chop'' ''vqe_algorithm.run'' (callees (fst (notebook demo_library)))"
proof -
  from demo_notebook_callees obtain fin where fin: "snd (notebook demo_library) = Inr fin"
    by blast
  then show ?thesis using calls_in_program_order [of demo_library fin] by blast
qed

subsection \<open>C8: the notebook's own computation is deterministic\<close>

text \<open>
  C8: take two runs of cell 3, on molecules with the same number of orbitals, numbers of
  electrons, integrals and nuclear repulsion energy, that raise nothing. Then
  \<open>freeze_list\<close>, \<open>remove_list\<close>, \<open>num_particles\<close>, \<open>num_spin_orbitals\<close> and
  \<open>qubit_reduction\<close> are the same in both, even on two libraries that behave differently;
  and \<open>energy_shift\<close>, which is what \<open>fermion_mode_freezing\<close> returned, is the same when
  \<open>FermionicOperator\<close> and \<open>fermion_mode_freezing\<close> are the same functions in both runs.
\<close>

theorem own_computation_deterministic:
  "same_attributes m1 m2 \<Longrightarrow>
   cell3 lib1 m1 = (t1, Inr v1) \<Longrightarrow>
   cell3 lib2 m2 = (t2, Inr v2) \<Longrightarrow>
   freeze_list v1 = freeze_list v2 \<and>
   remove_list v1 = remove_list v2 \<and>
   num_particles v1 = num_particles v2 \<and>
   num_spin_orbitals v1 = num_spin_orbitals v2 \<and>
   qubit_reduction v1 = qubit_reduction v2 \<and>
   (FermionicOperator lib1 = FermionicOperator lib2 \<and>
    fermion_mode_freezing lib1 = fermion_mode_freezing lib2 \<longrightarrow>
      energy_shift v1 = energy_shift v2)"
proof -
  assume s: "same_attributes m1 m2"
    and c1: "cell3 lib1 m1 = (t1, Inr v1)" and c2: "cell3 lib2 m2 = (t2, Inr v2)"
  note a = cell3_success [OF c1] and b = cell3_success [OF c2]
  have "freeze_list v1 = freeze_list v2" "remove_list v1 = remove_list v2"
    "num_particles v1 = num_particles v2" "num_spin_orbitals v1 = num_spin_orbitals v2"
    "qubit_reduction v1 = qubit_reduction v2"
    using s by (simp_all add: a(2-6) b(2-6) same_attributes_def)
  moreover have "energy_shift v1 = energy_shift v2"
    if "FermionicOperator lib1 = FermionicOperator lib2"
      and "fermion_mode_freezing lib1 = fermion_mode_freezing lib2"
  proof -
    from a(9) obtain f0 f1 where
      1: "FermionicOperator lib1 (mol_one_body_integrals m1) (mol_two_body_integrals m1) = Inr f0"
        "fermion_mode_freezing lib1 f0 (freeze_list v1) = Inr (f1, energy_shift v1)"
      by blast
    from b(9) obtain g0 g1 where
      2: "FermionicOperator lib2 (mol_one_body_integrals m2) (mol_two_body_integrals m2) = Inr g0"
        "fermion_mode_freezing lib2 g0 (freeze_list v2) = Inr (g1, energy_shift v2)"
      by blast
    have "f0 = g0" using 1(1) 2(1) s that(1) by (simp add: same_attributes_def)
    then show ?thesis
      using 1(2) 2(2) that(2) \<open>freeze_list v1 = freeze_list v2\<close> by simp
  qed
  ultimately show ?thesis by blast
qed

theorem own_computation_deterministic_demo:
  "same_attributes demo_molecule (demo_molecule\<lparr>mol_hf_energy := - 5\<rparr>) \<and>
   (\<exists>t1 v1 t2 v2.
      cell3 demo_library demo_molecule = (t1, Inr v1) \<and>
      cell3 demo_library (demo_molecule\<lparr>mol_hf_energy := - 5\<rparr>) = (t2, Inr v2) \<and>
      freeze_list v1 = freeze_list v2 \<and> remove_list v1 = remove_list v2 \<and>
      num_particles v1 = num_particles v2 \<and> num_spin_orbitals v1 = num_spin_orbitals v2 \<and>
      qubit_reduction v1 = qubit_reduction v2 \<and> energy_shift v1 = energy_shift v2)"
proof -
  have s: "same_attributes demo_molecule (demo_molecule\<lparr>mol_hf_energy := - 5\<rparr>)"
    by (simp add: same_attributes_def)
  have c1: "cell3 demo_library demo_molecule =
      (fst (cell3 demo_library demo_molecule), Inr (projr (snd (cell3 demo_library demo_molecule))))"
    by (simp add: cell3_def demo_cell3)
  from demo_cell3_other_hf_energy obtain t2 v2 where
    c2: "cell3 demo_library (demo_molecule\<lparr>mol_hf_energy := - 5\<rparr>) = (t2, Inr v2)"
    by blast
  show ?thesis
    using own_computation_deterministic [OF s c1 c2] s c1 c2 by blast
qed

subsection \<open>C9: the two total energies\<close>



subsection \<open>C10: the two-qubit reduction\<close>

text \<open>
  C10: whatever the settings, in a run of cell 3 that raises nothing,
  \<open>qubit_reduction\<close> is true exactly when \<open>map_type\<close> is \<open>'parity'\<close>;
  \<open>two_qubit_reduced_operator\<close> is called exactly when \<open>qubit_reduction\<close> is true, on the
  operator that \<open>ferOp.mapping\<close> returned and with \<open>num_particles\<close>, and its result is the
  operator that goes on to \<open>chop\<close>; otherwise the operator that \<open>ferOp.mapping\<close> returned
  goes on to \<open>chop\<close> as it is.
\<close>

theorem reduction_iff_parity:
  "cell3_body lib freeze_list0 remove_list0 map_type' molecule = (t, Inr v) \<Longrightarrow>
   qubit_reduction v = (map_type' = ''parity'') \<and>
   (''qubitOp.two_qubit_reduced_operator'' \<in> set (callees t)) = qubit_reduction v \<and>
   (\<exists>q. mapping lib (ferOp v) map_type' 0.00000001 = Inr q \<and>
      (if qubit_reduction v
       then \<exists>q'. two_qubit_reduced_operator lib q (num_particles v) = Inr q' \<and>
              chop lib q' (1 / 10 ^ 10) = Inr (qubitOp v)
       else chop lib q (1 / 10 ^ 10) = Inr (qubitOp v)))"
  by (rule cell3_reduction)

theorem reduction_iff_parity_demo:
  "(\<exists>t v. cell3_body demo_library [0] [-3, -2] ''parity'' demo_molecule = (t, Inr v) \<and>
      qubit_reduction v \<and> ''qubitOp.two_qubit_reduced_operator'' \<in> set (callees t)) \<and>
   (\<exists>t v. cell3_body demo_library [0] [-3, -2] ''jordan_wigner'' demo_molecule = (t, Inr v) \<and>
      \<not> qubit_reduction v \<and> ''qubitOp.two_qubit_reduced_operator'' \<notin> set (callees t))"
proof
  show "\<exists>t v. cell3_body demo_library [0] [-3, -2] ''parity'' demo_molecule = (t, Inr v) \<and>
      qubit_reduction v \<and> ''qubitOp.two_qubit_reduced_operator'' \<in> set (callees t)"
    using reduction_iff_parity [OF demo_cell3] demo_cell3 by auto
next
  show "\<exists>t v. cell3_body demo_library [0] [-3, -2] ''jordan_wigner'' demo_molecule = (t, Inr v) \<and>
      \<not> qubit_reduction v \<and> ''qubitOp.two_qubit_reduced_operator'' \<notin> set (callees t)"
    using reduction_iff_parity [OF demo_cell3_jordan_wigner] demo_cell3_jordan_wigner by auto
qed

end
